theory Spec2Isabelle
  imports Complex_Main
begin

section \<open>JavaScript values and built-ins the flyout relies on\<close>

text \<open>
  The flyout (\<^verbatim>\<open>src/core/flyout_base.ts\<close>) is TypeScript. A thrown exception is a value of
  \<open>error\<close>; a function that can throw returns \<open>error + 'a\<close> with \<open>Inl\<close> for the throw.
  \<open>DeserializationError\<close> is what the serialization layer throws on a malformed block
  descriptor.
\<close>

datatype error = TypeError string | Error string | DeserializationError string

subsection \<open>Numbers\<close>

text \<open>
  A JavaScript number is an IEEE-754 double. A finite double is a rational number, and
  \<open>fpRound\<close> is the rounding every arithmetic operation ends with: to the nearest number
  with 53 significant bits, a tie going to the even significand. \<open>bitlen\<close> is the length of
  a positive integer in bits, \<open>ilog2 x\<close> the exponent \<open>e\<close> with \<open>2^e \<le> x < 2^(e+1)\<close> for a
  positive \<open>x\<close>. The exponent is not bounded: overflow to \<^verbatim>\<open>Infinity\<close> and the subnormal
  range are not represented. \<open>roundInt\<close> is the double nearest an integer, itself an
  integer.
\<close>

function bitlen :: "int \<Rightarrow> int" where
  "bitlen n = (if n \<le> 0 then 0 else 1 + bitlen (n div 2))"
  by pat_completeness auto
termination
  by (relation "measure nat") auto

declare bitlen.simps [simp del]

definition pow2 :: "int \<Rightarrow> rat" where
  "pow2 k = (if 0 \<le> k then 2 ^ nat k else 1 / 2 ^ nat (- k))"

definition ilog2 :: "rat \<Rightarrow> int" where
  "ilog2 x =
     (case quotient_of x of (p, q) \<Rightarrow>
        let e0 = bitlen p - bitlen q
        in if pow2 e0 \<le> x then e0 else e0 - 1)"

definition roundHalfEven :: "rat \<Rightarrow> int" where
  "roundHalfEven q =
     (let f = \<lfloor>q\<rfloor>; d = q - of_int f
      in if d < 1 / 2 then f else if 1 / 2 < d then f + 1
         else if f mod 2 = 0 then f else f + 1)"

definition fpRound :: "rat \<Rightarrow> rat" where
  "fpRound x =
     (if x = 0 then 0
      else let u = pow2 (ilog2 \<bar>x\<bar> - 52)
           in sgn x * of_int (roundHalfEven (\<bar>x\<bar> / u)) * u)"

definition roundInt :: "int \<Rightarrow> int" where
  "roundInt n = \<lfloor>fpRound (of_int n)\<rfloor>"

subsection \<open>Values, \<^verbatim>\<open>toString\<close> and \<^verbatim>\<open>parseInt\<close>\<close>

text \<open>
  The descriptor fields read by the flyout hold numbers, strings or booleans
  (\<^verbatim>\<open>gap: number|string\<close>, \<^verbatim>\<open>disabled: string|boolean\<close>); \<^verbatim>\<open>undefined\<close> is the \<open>None\<close> of the
  option around a field. \<open>JNum n\<close> is the integer-valued number \<open>roundInt n\<close>. Strings are
  lists of 8-bit characters.
\<close>

datatype jsval = JNum int | JStr string | JBool bool

fun truthy :: "jsval option \<Rightarrow> bool" where
  "truthy None = False"
| "truthy (Some (JNum n)) = (n \<noteq> 0)"
| "truthy (Some (JStr s)) = (s \<noteq> [])"
| "truthy (Some (JBool b)) = b"

definition digitChar :: "int \<Rightarrow> char" where
  "digitChar d = char_of (48 + d)"

function showDigits :: "int \<Rightarrow> string" where
  "showDigits n =
     (if n < 10 then [digitChar n] else showDigits (n div 10) @ [digitChar (n mod 10)])"
  by pat_completeness auto
termination
  by (relation "measure nat") auto

declare showDigits.simps [simp del]

text \<open>
  \<^verbatim>\<open>Number.prototype.toString\<close> prints the shortest decimal \<open>c \<times> 10^t\<close> that reads back as
  the same double, the nearest to it among those of that length. \<open>shortest\<close> tries the
  lengths from one digit on (17 digits always suffice), at each length the two candidates
  around the number. Below \<open>10^21\<close> the digits are followed by \<open>t\<close> zeros; from there on the
  exponent form is printed, as in \<^verbatim>\<open>1.1805916207174113e+21\<close>.
\<close>

fun shortest :: "nat \<Rightarrow> int \<Rightarrow> int \<Rightarrow> int \<times> int" where
  "shortest 0 t n = (n, 0)"
| "shortest (Suc fuel) t n =
     (let lo = n div 10 ^ nat t; hi = lo + 1;
          okLo = (roundInt (lo * 10 ^ nat t) = n); okHi = (roundInt (hi * 10 ^ nat t) = n)
      in if okLo \<and> okHi then
           (if n - lo * 10 ^ nat t < hi * 10 ^ nat t - n then (lo, t)
            else if hi * 10 ^ nat t - n < n - lo * 10 ^ nat t then (hi, t)
            else if lo mod 2 = 0 then (lo, t) else (hi, t))
         else if okLo then (lo, t)
         else if okHi then (hi, t)
         else if t \<le> 0 then (n, 0)
         else shortest fuel (t - 1) n)"

definition numberToString :: "int \<Rightarrow> string" where
  "numberToString n =
     (if n < 0 then [CHR ''-''] else [])
     @ (case shortest 17 (int (length (showDigits \<bar>n\<bar>)) - 1) \<bar>n\<bar> of
          (c, t) \<Rightarrow>
            if \<bar>n\<bar> < 10 ^ 21 then showDigits c @ replicate (nat t) (CHR ''0'')
            else
              let digits = showDigits c;
                  significant = rev (dropWhile (\<lambda>d. d = CHR ''0'') (rev digits))
              in hd significant
                 # (if tl significant = [] then [] else CHR ''.'' # tl significant)
                 @ ''e+'' @ showDigits (int (length digits) - 1 + t))"

fun toString :: "jsval \<Rightarrow> string" where
  "toString (JNum n) = numberToString (roundInt n)"
| "toString (JStr s) = s"
| "toString (JBool b) = (if b then ''true'' else ''false'')"

definition isWhiteSpace :: "char \<Rightarrow> bool" where
  "isWhiteSpace c = (of_char c \<in> {9, 10, 11, 12, 13, 32, 160 :: nat})"

definition isDigit :: "char \<Rightarrow> bool" where
  "isDigit c = (48 \<le> (of_char c :: nat) \<and> (of_char c :: nat) \<le> 57)"

definition digitVal :: "char \<Rightarrow> int" where
  "digitVal c = of_char c - 48"

definition parseDigits :: "string \<Rightarrow> int option" where
  "parseDigits s =
     (let ds = takeWhile isDigit s
      in if ds = [] then None
         else Some (roundInt (foldl (\<lambda>a c. 10 * a + digitVal c) 0 ds)))"

text \<open>
  \<^verbatim>\<open>parseInt(s, 10)\<close>: leading white space is skipped (the white space below code 256: tab,
  line feed, vertical tab, form feed, carriage return, space and the no-break space), one
  sign is read, then the longest run of decimal digits, whose value is rounded to a double;
  \<open>None\<close> is \<^verbatim>\<open>NaN\<close> (no digit where one is expected).
\<close>

definition parseInt :: "string \<Rightarrow> int option" where
  "parseInt s =
     (case dropWhile isWhiteSpace s of
        [] \<Rightarrow> None
      | c # r \<Rightarrow>
          if c = CHR ''-'' then map_option uminus (parseDigits r)
          else if c = CHR ''+'' then parseDigits r
          else parseDigits (c # r))"

text \<open>
  \<^verbatim>\<open>toUpperCase\<close> on the letters \<^verbatim>\<open>a\<close> to \<^verbatim>\<open>z\<close>. The flyout compares the result with the words
  \<^verbatim>\<open>BLOCK\<close>, \<^verbatim>\<open>SEP\<close>, \<^verbatim>\<open>LABEL\<close> and \<^verbatim>\<open>BUTTON\<close> only; a character above code 127 is kept as it
  is, which gives these comparisons the outcome they have in JavaScript.
\<close>

definition toUpperChar :: "char \<Rightarrow> char" where
  "toUpperChar c =
     (if 97 \<le> (of_char c :: nat) \<and> (of_char c :: nat) \<le> 122
      then char_of ((of_char c :: nat) - 32) else c)"

definition toUpperCase :: "string \<Rightarrow> string" where
  "toUpperCase s = map toUpperChar s"

section \<open>Blocks, descriptors and the flyout's state\<close>

text \<open>
  A block of a workspace: its identity (object identity in the source), its \<^verbatim>\<open>type\<close>, its
  enabled flag (\<^verbatim>\<open>isEnabled()\<close>, \<^verbatim>\<open>setEnabled\<close>) and the block connected below it
  (\<^verbatim>\<open>getNextBlock()\<close>). Value inputs are left out: nothing in the flyout walks them.
\<close>

datatype Block = Block (bid: nat) (type: string) (isEnabled: bool) (getNextBlock: "Block option")

text \<open>
  A serialized block (\<^verbatim>\<open>blocks.State\<close>): the keys \<^verbatim>\<open>type\<close>, \<^verbatim>\<open>enabled\<close> and \<^verbatim>\<open>next.block\<close>.
\<close>

datatype State = State (stateType: string) (stateEnabled: "bool option") (stateNext: "State option")

text \<open>
  Modelled from the spec: the block definitions (\<^verbatim>\<open>Blockly.Blocks\<close>, filled by the library
  blocks that \<^verbatim>\<open>src/unnamed/part_000\<close> loads) and the checks of the serialization layer are
  not under \<^verbatim>\<open>src/\<close>. A block type is defined or not; a defined type is a statement block,
  with a previous and a next connection, or a value block, with an output. The types listed
  are the library blocks that the examples of this development use. A descriptor is
  well-formed when every type in it is defined and every \<^verbatim>\<open>next\<close> link joins two statement
  blocks; deserializing any other descriptor fails.
\<close>

datatype Connections = StatementBlock | ValueBlock

definition Blocks :: "string \<Rightarrow> Connections option" where
  "Blocks t =
     (if t \<in> {''controls_if'', ''controls_repeat_ext'', ''text_print''} then Some StatementBlock
      else if t \<in> {''math_number'', ''math_arithmetic'', ''text'', ''logic_boolean''}
      then Some ValueBlock
      else None)"

fun wellFormed :: "State \<Rightarrow> bool" where
  "wellFormed (State t en None) = (Blocks t \<noteq> None)"
| "wellFormed (State t en (Some s)) =
     (Blocks t = Some StatementBlock \<and> Blocks (stateType s) = Some StatementBlock \<and> wellFormed s)"

text \<open>
  A \<^verbatim>\<open>blockxml\<close> element: its \<^verbatim>\<open>gap\<close> attribute (\<^verbatim>\<open>getAttribute('gap')\<close>, \<open>None\<close> for
  \<^verbatim>\<open>null\<close>) and the block tree it describes (the \<^verbatim>\<open>type\<close> and \<^verbatim>\<open>disabled\<close> attributes and the
  \<^verbatim>\<open><next>\<close> children). The descriptors of this development hold their \<^verbatim>\<open>blockxml\<close> as an
  element, the second alternative of \<^verbatim>\<open>string|Node\<close>; the text form, which the flyout first
  hands to \<^verbatim>\<open>Xml.textToDom\<close>, is not represented.
\<close>

record Element =
  gapAttr :: "string option"
  blockOf :: State

text \<open>
  One entry of a parsed flyout definition (\<^verbatim>\<open>toolbox.FlyoutItemInfo\<close>). \<open>custom\<close> is \<open>Some\<close>
  exactly when the entry has a \<^verbatim>\<open>custom\<close> key. A block entry is itself read as a
  \<^verbatim>\<open>blocks.State\<close> (\<^verbatim>\<open>blockInfo as blocks.State\<close>): \<open>blockState\<close> holds its \<^verbatim>\<open>type\<close>,
  \<^verbatim>\<open>enabled\<close> and \<^verbatim>\<open>next\<close> keys.
\<close>

record FlyoutItemInfo =
  kind :: string
  custom :: "string option"
  gap :: "jsval option"
  blockxml :: "Element option"
  disabled :: "jsval option"
  blockState :: State

datatype FlyoutButton = FlyoutButton (buttonInfo: FlyoutItemInfo) (isLabel: bool)

text \<open>
  A content item holds the block as \<^verbatim>\<open>createFlyoutBlock_\<close> returned it; the current state of
  a block is the one in the flyout's workspace (\<open>topBlocks\<close> below).
\<close>

datatype FlyoutItem = BlockItem Block | ButtonItem FlyoutButton

text \<open>
  What the flyout consumes from the target workspace: the registered dynamic-category
  callbacks (\<^verbatim>\<open>getToolboxCategoryCallback\<close>; a registered callback is given by the item list
  it yields after \<^verbatim>\<open>convertFlyoutDefToJsonArray\<close>), the capacity query, the variables
  (\<^verbatim>\<open>getAllVariables()\<close>) and the blocks cloned into it.
\<close>

record TargetWorkspace =
  getToolboxCategoryCallback :: "string \<Rightarrow> FlyoutItemInfo list option"
  isCapacityAvailable :: "string list \<Rightarrow> bool"
  getAllVariables :: "string list"
  targetBlocks :: "Block list"

text \<open>
  The flyout: the fields of class \<^verbatim>\<open>Flyout\<close> that the modelled methods read or write.
  \<open>topBlocks\<close> and \<open>nextId\<close> stand for the flyout's private workspace
  (\<^verbatim>\<open>workspace_.getTopBlocks(false)\<close> and its id generator); \<open>permanentlyDisabled\<close> holds
  block references, here block ids. \<open>blockIsRecyclable\<close> is the overridable method of that
  name (the base class answers \<^verbatim>\<open>false\<close>). \<open>hasFlyoutButton\<close> tells whether
  \<^verbatim>\<open>goog.module.get('Blockly.FlyoutButton')\<close> yields the button class.
\<close>

record Flyout =
  horizontalLayout :: bool
  GAP_X :: int
  GAP_Y :: int
  autoClose :: bool
  isVisible :: bool
  permanentlyDisabled :: "nat list"
  recycledBlocks :: "Block list"
  topBlocks :: "Block list"
  nextId :: nat
  blockIsRecyclable :: "Block \<Rightarrow> bool"
  hasFlyoutButton :: bool
  targetWorkspace :: TargetWorkspace

section \<open>Content parsing\<close>

subsection \<open>Recycling and materializing blocks\<close>

fun findRecycled :: "string \<Rightarrow> Block list \<Rightarrow> nat option" where
  "findRecycled blockType [] = None"
| "findRecycled blockType (b # bs) =
     (if type b = blockType then Some 0 else map_option Suc (findRecycled blockType bs))"

text \<open>
  \<^verbatim>\<open>getRecycledBlock_\<close>: the loop finds the first index whose block has the type
  (\<open>findRecycled\<close>; \<open>None\<close> is index \<^verbatim>\<open>-1\<close>), \<^verbatim>\<open>splice(index, 1)[0]\<close> removes and returns it.
\<close>

definition getRecycledBlock :: "string \<Rightarrow> Flyout \<Rightarrow> Block option \<times> Flyout" where
  "getRecycledBlock blockType f =
     (case findRecycled blockType (recycledBlocks f) of
        None \<Rightarrow> (None, f)
      | Some index \<Rightarrow>
          (Some (recycledBlocks f ! index),
           f\<lparr>recycledBlocks := take index (recycledBlocks f) @ drop (Suc index) (recycledBlocks f)\<rparr>))"

text \<open>
  Modelled from the spec: \<^verbatim>\<open>blocks.append\<close> and \<^verbatim>\<open>Xml.domToBlock\<close> (the serialization layer)
  are not under \<^verbatim>\<open>src/\<close>. They fail with a \<open>DeserializationError\<close> if the descriptor is
  malformed. Otherwise they deserialize a fresh instance into the flyout's private workspace
  and apply the descriptor-declared enabled/disabled state, at every level of the
  descriptor; the instance becomes a top block of the workspace.
\<close>

fun instantiate :: "State \<Rightarrow> nat \<Rightarrow> Block \<times> nat" where
  "instantiate (State t en None) n = (Block n t (en \<noteq> Some False) None, Suc n)"
| "instantiate (State t en (Some s)) n =
     (case instantiate s (Suc n) of
        (child, n') \<Rightarrow> (Block n t (en \<noteq> Some False) (Some child), n'))"

definition appendBlock :: "State \<Rightarrow> Flyout \<Rightarrow> error + Block \<times> Flyout" where
  "appendBlock state f =
     (if \<not> wellFormed state then Inl (DeserializationError ''malformed block descriptor'')
      else case instantiate state (nextId f) of
             (block, n) \<Rightarrow> Inr (block, f\<lparr>topBlocks := topBlocks f @ [block], nextId := n\<rparr>))"

definition domToBlock :: "Element \<Rightarrow> Flyout \<Rightarrow> error + Block \<times> Flyout" where
  "domToBlock xml f = appendBlock (blockOf xml) f"

text \<open>
  \<^verbatim>\<open>createFlyoutBlock_\<close>. With a \<^verbatim>\<open>blockxml\<close> the type comes from the element; otherwise an
  entry with no \<^verbatim>\<open>enabled\<close> key gets it from its \<^verbatim>\<open>disabled\<close> key before it is
  deserialized. A throw of the serialization layer leaves the method. A block that is not
  enabled is pushed on \<^verbatim>\<open>permanentlyDisabled_\<close>.
\<close>

definition createFlyoutBlock :: "FlyoutItemInfo \<Rightarrow> Flyout \<Rightarrow> error + Block \<times> Flyout" where
  "createFlyoutBlock blockInfo f =
     (case
        (case blockxml blockInfo of
           Some xml \<Rightarrow>
             (case getRecycledBlock (stateType (blockOf xml)) f of
                (Some block, f') \<Rightarrow> Inr (block, f')
              | (None, f') \<Rightarrow> domToBlock xml f')
         | None \<Rightarrow>
             (case getRecycledBlock (stateType (blockState blockInfo)) f of
                (Some block, f') \<Rightarrow> Inr (block, f')
              | (None, f') \<Rightarrow>
                  appendBlock
                    (State (stateType (blockState blockInfo))
                       (case stateEnabled (blockState blockInfo) of
                          None \<Rightarrow>
                            Some (disabled blockInfo \<noteq> Some (JStr ''true'')
                                  \<and> disabled blockInfo \<noteq> Some (JBool True))
                        | Some e \<Rightarrow> Some e)
                       (stateNext (blockState blockInfo)))
                    f'))
      of Inl e \<Rightarrow> Inl e
       | Inr (block, f1) \<Rightarrow>
           if \<not> isEnabled block
           then Inr (block, f1\<lparr>permanentlyDisabled := permanentlyDisabled f1 @ [bid block]\<rparr>)
           else Inr (block, f1))"

subsection \<open>Gaps\<close>

text \<open>
  \<^verbatim>\<open>addBlockGap_\<close>. The local \<^verbatim>\<open>gap\<close> is \<^verbatim>\<open>undefined\<close>, \<^verbatim>\<open>NaN\<close> or a number; \<open>None\<close> stands for
  the first two, which the last line treats alike (\<^verbatim>\<open>!gap || isNaN(gap)\<close>). A \<^verbatim>\<open>null\<close>
  attribute is parsed as the string \<^verbatim>\<open>null\<close>.
\<close>

definition addBlockGap :: "FlyoutItemInfo \<Rightarrow> int list \<Rightarrow> int \<Rightarrow> int list" where
  "addBlockGap blockInfo gaps defaultGap =
     (let gap' =
        (if truthy (gap blockInfo) then parseInt (toString (the (gap blockInfo)))
         else case blockxml blockInfo of
                Some xml \<Rightarrow> parseInt (case gapAttr xml of None \<Rightarrow> ''null'' | Some a \<Rightarrow> a)
              | None \<Rightarrow> None)
      in gaps @ [case gap' of None \<Rightarrow> defaultGap
                 | Some g \<Rightarrow> if g = 0 then defaultGap else g])"

text \<open>
  \<^verbatim>\<open>addSeparatorGap_\<close>. \<^verbatim>\<open>sepInfo['gap']!.toString()\<close> throws a \<^verbatim>\<open>TypeError\<close> on an entry
  with no \<^verbatim>\<open>gap\<close>: the \<^verbatim>\<open>!\<close> is erased by the compiler.
\<close>

definition addSeparatorGap :: "FlyoutItemInfo \<Rightarrow> int list \<Rightarrow> int \<Rightarrow> error + int list" where
  "addSeparatorGap sepInfo gaps defaultGap =
     (case gap sepInfo of
        None \<Rightarrow> Inl (TypeError ''Cannot read properties of undefined (reading toString)'')
      | Some v \<Rightarrow>
          (case parseInt (toString v) of
             Some newGap \<Rightarrow>
               if length gaps > 0 then Inr (gaps[length gaps - 1 := newGap])
               else Inr (gaps @ [defaultGap])
           | None \<Rightarrow> Inr (gaps @ [defaultGap])))"

subsection \<open>Dynamic categories and the parsing loop\<close>

definition getDynamicCategoryContents :: "Flyout \<Rightarrow> string \<Rightarrow> error + FlyoutItemInfo list" where
  "getDynamicCategoryContents f categoryName =
     (case getToolboxCategoryCallback (targetWorkspace f) categoryName of
        None \<Rightarrow>
          Inl (TypeError ''Couldn't find a callback function when opening a toolbox category.'')
      | Some flyoutDef \<Rightarrow> Inr flyoutDef)"

text \<open>
  \<^verbatim>\<open>createButton_\<close>: it throws when the button class is missing, and builds the button or
  label otherwise.
\<close>

definition createButton :: "FlyoutItemInfo \<Rightarrow> bool \<Rightarrow> Flyout \<Rightarrow> error + FlyoutButton" where
  "createButton btnInfo label f =
     (if \<not> hasFlyoutButton f then Inl (Error ''Missing require for Blockly.FlyoutButton'')
      else Inr (FlyoutButton btnInfo label))"

text \<open>
  The \<^verbatim>\<open>switch\<close> of \<^verbatim>\<open>createFlyoutInfo_\<close> on the upper-cased \<^verbatim>\<open>kind\<close>, on the loop's state
  (\<^verbatim>\<open>contents\<close>, \<^verbatim>\<open>gaps\<close>, the flyout). Any other kind falls through with no effect.
\<close>

definition createFlyoutItem ::
  "int \<Rightarrow> FlyoutItemInfo \<Rightarrow> FlyoutItem list \<times> int list \<times> Flyout
     \<Rightarrow> error + FlyoutItem list \<times> int list \<times> Flyout" where
  "createFlyoutItem defaultGap contentInfo acc =
     (case acc of (contents, gaps, f) \<Rightarrow>
        if toUpperCase (kind contentInfo) = ''BLOCK'' then
          (case createFlyoutBlock contentInfo f of
             Inl e \<Rightarrow> Inl e
           | Inr (block, f') \<Rightarrow>
               Inr (contents @ [BlockItem block], addBlockGap contentInfo gaps defaultGap, f'))
        else if toUpperCase (kind contentInfo) = ''SEP'' then
          (case addSeparatorGap contentInfo gaps defaultGap of
             Inl e \<Rightarrow> Inl e
           | Inr gaps' \<Rightarrow> Inr (contents, gaps', f))
        else if toUpperCase (kind contentInfo) = ''LABEL'' then
          (case createButton contentInfo True f of
             Inl e \<Rightarrow> Inl e
           | Inr label \<Rightarrow> Inr (contents @ [ButtonItem label], gaps @ [defaultGap], f))
        else if toUpperCase (kind contentInfo) = ''BUTTON'' then
          (case createButton contentInfo False f of
             Inl e \<Rightarrow> Inl e
           | Inr button \<Rightarrow> Inr (contents @ [ButtonItem button], gaps @ [defaultGap], f))
        else Inr (contents, gaps, f))"

text \<open>
  The \<^verbatim>\<open>for\<close> loop of \<^verbatim>\<open>createFlyoutInfo_\<close>, on the entries from index \<^verbatim>\<open>i\<close> on. An entry
  with a \<^verbatim>\<open>custom\<close> key is spliced out for its category's contents and \<^verbatim>\<open>contentInfo\<close> is
  read again at \<^verbatim>\<open>i\<close>, with no second look at \<^verbatim>\<open>custom\<close>; when nothing is left at \<^verbatim>\<open>i\<close>,
  \<^verbatim>\<open>contentInfo['kind']\<close> throws. A category may name itself, so the loop need not end:
  each iteration costs one unit of fuel and \<open>None\<close> is running out of it. A throw ends
  the call; the state reached by then is not part of the result.
\<close>

fun createFlyoutInfoLoop ::
  "nat \<Rightarrow> int \<Rightarrow> FlyoutItemInfo list \<Rightarrow> FlyoutItem list \<times> int list \<times> Flyout
     \<Rightarrow> (error + FlyoutItem list \<times> int list \<times> Flyout) option" where
  "createFlyoutInfoLoop fuel defaultGap [] acc = Some (Inr acc)"
| "createFlyoutInfoLoop 0 defaultGap (contentInfo # rest) acc = None"
| "createFlyoutInfoLoop (Suc fuel) defaultGap (contentInfo # rest) acc =
     (case custom contentInfo of
        Some categoryName \<Rightarrow>
          (case getDynamicCategoryContents (snd (snd acc)) categoryName of
             Inl e \<Rightarrow> Some (Inl e)
           | Inr parsedDynamicContent \<Rightarrow>
               (case parsedDynamicContent @ rest of
                  [] \<Rightarrow> Some (Inl (TypeError ''Cannot read properties of undefined (reading kind)''))
                | contentInfo' # rest' \<Rightarrow>
                    (case createFlyoutItem defaultGap contentInfo' acc of
                       Inl e \<Rightarrow> Some (Inl e)
                     | Inr acc' \<Rightarrow> createFlyoutInfoLoop fuel defaultGap rest' acc')))
      | None \<Rightarrow>
          (case createFlyoutItem defaultGap contentInfo acc of
             Inl e \<Rightarrow> Some (Inl e)
           | Inr acc' \<Rightarrow> createFlyoutInfoLoop fuel defaultGap rest acc'))"

definition createFlyoutInfo ::
  "nat \<Rightarrow> FlyoutItemInfo list \<Rightarrow> Flyout
     \<Rightarrow> (error + FlyoutItem list \<times> int list \<times> Flyout) option" where
  "createFlyoutInfo fuel parsedContent f =
     createFlyoutInfoLoop fuel (if horizontalLayout f then GAP_X f else GAP_Y f) parsedContent
       ([], [], f\<lparr>permanentlyDisabled := []\<rparr>)"

section \<open>Capacity filtering\<close>

text \<open>
  Modelled from the spec: \<^verbatim>\<open>common.getBlockTypeCounts\<close> is not under \<^verbatim>\<open>src/\<close>. It is the
  block-type usage signature of a block, connected children included: here the types of the
  block and of the blocks chained below it.
\<close>

fun getBlockTypeCounts :: "Block \<Rightarrow> string list" where
  "getBlockTypeCounts (Block i t en None) = [t]"
| "getBlockTypeCounts (Block i t en (Some b)) = t # getBlockTypeCounts b"

text \<open>
  The inner \<^verbatim>\<open>while (block)\<close> loop of \<^verbatim>\<open>filterForCapacity_\<close>: \<^verbatim>\<open>setEnabled(enable)\<close> on the
  block and on every block reached by \<^verbatim>\<open>getNextBlock()\<close>.
\<close>

fun setEnabledChain :: "bool \<Rightarrow> Block \<Rightarrow> Block" where
  "setEnabledChain enable (Block i t en None) = Block i t enable None"
| "setEnabledChain enable (Block i t en (Some b)) =
     Block i t enable (Some (setEnabledChain enable b))"

definition filterForCapacity :: "Flyout \<Rightarrow> Flyout" where
  "filterForCapacity f =
     f\<lparr>topBlocks :=
         map (\<lambda>block.
                if bid block \<notin> set (permanentlyDisabled f)
                then setEnabledChain
                       (isCapacityAvailable (targetWorkspace f) (getBlockTypeCounts block)) block
                else block)
           (topBlocks f)\<rparr>"

section \<open>Showing and hiding\<close>

definition hide :: "Flyout \<Rightarrow> Flyout" where
  "hide f = (if \<not> isVisible f then f else f\<lparr>isVisible := False\<rparr>)"

text \<open>
  \<^verbatim>\<open>clearOldBlocks_\<close>: a recyclable top block goes to the pool (\<^verbatim>\<open>recycleBlock_\<close>, it stays
  on the workspace), any other is disposed. \<^verbatim>\<open>emptyRecycledBlocks_\<close> disposes what is left
  in the pool.
\<close>

definition clearOldBlocks :: "Flyout \<Rightarrow> Flyout" where
  "clearOldBlocks f =
     f\<lparr>recycledBlocks := recycledBlocks f @ filter (blockIsRecyclable f) (topBlocks f),
       topBlocks := filter (blockIsRecyclable f) (topBlocks f)\<rparr>"

definition emptyRecycledBlocks :: "Flyout \<Rightarrow> Flyout" where
  "emptyRecycledBlocks f =
     f\<lparr>topBlocks := filter (\<lambda>b. bid b \<notin> bid ` set (recycledBlocks f)) (topBlocks f),
       recycledBlocks := []\<rparr>"

text \<open>
  \<^verbatim>\<open>show\<close>, for a definition that is a category name (\<open>Inl\<close>) or an item list (\<open>Inr\<close>). The
  layout, the reflow and the positioning are deferred to the subclasses and compute
  geometry only; they are left out.
\<close>

definition showFlyout ::
  "nat \<Rightarrow> string + FlyoutItemInfo list \<Rightarrow> Flyout
     \<Rightarrow> (error + FlyoutItem list \<times> int list \<times> Flyout) option" where
  "showFlyout fuel flyoutDef f =
     (let f1 = clearOldBlocks (hide f) in
      case (case flyoutDef of
              Inl categoryName \<Rightarrow> getDynamicCategoryContents f1 categoryName
            | Inr items \<Rightarrow> Inr items) of
        Inl e \<Rightarrow> Some (Inl e)
      | Inr parsedContent \<Rightarrow>
          (case createFlyoutInfo fuel parsedContent (f1\<lparr>isVisible := True\<rparr>) of
             None \<Rightarrow> None
           | Some (Inl e) \<Rightarrow> Some (Inl e)
           | Some (Inr (contents, gaps, f2)) \<Rightarrow>
               Some (Inr (contents, gaps, emptyRecycledBlocks (filterForCapacity f2)))))"

section \<open>Creating a block on the target workspace\<close>

text \<open>
  Modelled from the spec: the notification utilities (\<^verbatim>\<open>events/utils\<close>) and
  \<^verbatim>\<open>Variables.getAddedVariables\<close> are not under \<^verbatim>\<open>src/\<close>. Suppression nests: \<^verbatim>\<open>disable\<close>
  raises a depth, \<^verbatim>\<open>enable\<close> lowers it, and notifications are enabled at depth 0 (the
  guard \<^verbatim>\<open>if (eventUtils.isEnabled())\<close> of \<^verbatim>\<open>createBlock\<close> reads it right after its own
  \<^verbatim>\<open>enable\<close>). \<^verbatim>\<open>setGroup(true)\<close> opens a group under a fresh id; a notification carries the
  group current when it is made; \<^verbatim>\<open>fire\<close> queues it if notifications are enabled. The
  added variables are the set difference of the target workspace's variables after and
  before.
\<close>

datatype Event = VarCreate string "nat option" | BlockCreate nat "nat option"

record Events =
  disabledDepth :: int
  group :: "nat option"
  nextUid :: nat
  FIRE_QUEUE :: "Event list"


definition enable :: "Events \<Rightarrow> Events" where
  "enable ev = ev\<lparr>disabledDepth := disabledDepth ev - 1\<rparr>"







subsection \<open>Positioning the new block\<close>







section \<open>Construction and sample descriptors\<close>

text \<open>
  The constructor's constants (\<^verbatim>\<open>CORNER_RADIUS = 8\<close>, \<^verbatim>\<open>MARGIN = CORNER_RADIUS\<close>,
  \<^verbatim>\<open>GAP_X = GAP_Y = MARGIN * 3\<close>) and the field initializers, followed by
  \<^verbatim>\<open>init(targetWorkspace)\<close>.
\<close>

definition CORNER_RADIUS :: int where
  "CORNER_RADIUS = 8"

definition MARGIN :: int where
  "MARGIN = CORNER_RADIUS"

definition newFlyout :: "TargetWorkspace \<Rightarrow> Flyout" where
  "newFlyout ws =
     \<lparr>horizontalLayout = False, GAP_X = MARGIN * 3, GAP_Y = MARGIN * 3, autoClose = True,
      isVisible = False, permanentlyDisabled = [], recycledBlocks = [], topBlocks = [],
      nextId = 0, blockIsRecyclable = (\<lambda>block. False), hasFlyoutButton = True,
      targetWorkspace = ws\<rparr>"

text \<open>A target workspace with the given callbacks, unlimited capacity and no variables.\<close>

definition plainTarget :: "(string \<Rightarrow> FlyoutItemInfo list option) \<Rightarrow> TargetWorkspace" where
  "plainTarget callbacks =
     \<lparr>getToolboxCategoryCallback = callbacks, isCapacityAvailable = (\<lambda>typeCounts. True),
      getAllVariables = [], targetBlocks = []\<rparr>"

text \<open>
  The entries \<^verbatim>\<open>{kind: "BLOCK", type: t}\<close>, \<^verbatim>\<open>{kind: "SEP", gap: g}\<close>, \<^verbatim>\<open>{kind: "LABEL"}\<close> and
  \<^verbatim>\<open>{kind: "CATEGORY", custom: name}\<close>.
\<close>

definition blockEntry :: "string \<Rightarrow> FlyoutItemInfo" where
  "blockEntry t =
     \<lparr>kind = ''BLOCK'', custom = None, gap = None, blockxml = None, disabled = None,
      blockState = State t None None\<rparr>"

definition sepEntry :: "jsval option \<Rightarrow> FlyoutItemInfo" where
  "sepEntry g =
     \<lparr>kind = ''SEP'', custom = None, gap = g, blockxml = None, disabled = None,
      blockState = State [] None None\<rparr>"

definition labelEntry :: FlyoutItemInfo where
  "labelEntry =
     \<lparr>kind = ''LABEL'', custom = None, gap = None, blockxml = None, disabled = None,
      blockState = State [] None None\<rparr>"

definition categoryEntry :: "string \<Rightarrow> FlyoutItemInfo" where
  "categoryEntry name =
     \<lparr>kind = ''CATEGORY'', custom = Some name, gap = None, blockxml = None, disabled = None,
      blockState = State [] None None\<rparr>"

definition poolFlyout :: Flyout where
  "poolFlyout =
     (newFlyout (plainTarget (\<lambda>name. None)))
       \<lparr>recycledBlocks :=
          [Block 1 ''math_number'' True None, Block 2 ''text'' True None,
           Block 3 ''text'' False None]\<rparr>"

text \<open>
  A block entry with the number 0 as its gap and a \<^verbatim>\<open>blockxml\<close> whose own \<^verbatim>\<open>gap\<close> attribute
  is \<^verbatim>\<open>"50"\<close>.
\<close>

definition zeroGapXmlEntry :: FlyoutItemInfo where
  "zeroGapXmlEntry =
     \<lparr>kind = ''BLOCK'', custom = None, gap = Some (JNum 0),
      blockxml = Some \<lparr>gapAttr = Some ''50'', blockOf = State ''math_number'' None None\<rparr>,
      disabled = None, blockState = State ''math_number'' None None\<rparr>"

text \<open>
  Two registries of dynamic categories. In both, \<^verbatim>\<open>INNER\<close> yields one block; \<^verbatim>\<open>OUTER\<close> yields
  the entry of \<^verbatim>\<open>INNER\<close>, as its first entry or after a label.
\<close>

definition nestedFirst :: "string \<Rightarrow> FlyoutItemInfo list option" where
  "nestedFirst name =
     (if name = ''OUTER'' then Some [categoryEntry ''INNER'']
      else if name = ''INNER'' then Some [blockEntry ''math_number'']
      else None)"

definition nestedLater :: "string \<Rightarrow> FlyoutItemInfo list option" where
  "nestedLater name =
     (if name = ''OUTER'' then Some [labelEntry, categoryEntry ''INNER'']
      else if name = ''INNER'' then Some [blockEntry ''math_number'']
      else None)"

text \<open>
  The state that a block entry hands to the serialization layer when nothing is recycled:
  that of its \<^verbatim>\<open>blockxml\<close> if it has one, its own keys otherwise.
\<close>

definition blockStateOf :: "FlyoutItemInfo \<Rightarrow> State" where
  "blockStateOf c = (case blockxml c of Some xml \<Rightarrow> blockOf xml | None \<Rightarrow> blockState c)"









section \<open>Facts about the built-ins and the block materializer\<close>

lemma toUpperCase_BLOCK: "toUpperCase ''BLOCK'' = ''BLOCK''"
  by code_simp

lemma toUpperCase_SEP: "toUpperCase ''SEP'' = ''SEP''"
  by code_simp

lemma toUpperCase_LABEL: "toUpperCase ''LABEL'' = ''LABEL''"
  by code_simp

lemma toUpperCase_CATEGORY: "toUpperCase ''CATEGORY'' = ''CATEGORY''"
  by code_simp

lemma parseInt_40: "parseInt (toString (JNum 40)) = Some 40"
  by code_simp

text \<open>
  From \<open>10^21\<close> on a number is printed in exponent form, and \<^verbatim>\<open>parseInt\<close> rounds what it
  reads to a double and skips a leading no-break space.
\<close>

lemma toString_exponent_form:
  "toString (JNum (10 ^ 21)) = ''1e+21''"
  "toString (JNum (2 ^ 70)) = ''1.1805916207174113e+21''"
  "toString (JNum 123456789012345678901) = ''123456789012345680000''"
  by code_simp+

lemma parseInt_rounds:
  "parseInt ''9007199254740993'' = Some 9007199254740992"
  "parseInt [char_of (160 :: nat), CHR ''7''] = Some 7"
  by code_simp+

text \<open>
  An integer of magnitude at most \<open>2^53\<close> is a double, and \<^verbatim>\<open>parseInt\<close> reads back what
  \<^verbatim>\<open>toString\<close> prints for it.
\<close>

lemma bitlen_1: "bitlen 1 = 1"
  by code_simp

lemma bitlen_lower: "0 < n \<Longrightarrow> 1 \<le> bitlen n \<and> 2 ^ nat (bitlen n - 1) \<le> n"
proof (induction n rule: bitlen.induct)
  case (1 n)
  show ?case
  proof (cases "n div 2 \<le> 0")
    case True
    with 1(2) have "n = 1" by auto
    then show ?thesis by (simp add: bitlen_1)
  next
    case False
    with 1 have ih: "1 \<le> bitlen (n div 2)" "2 ^ nat (bitlen (n div 2) - 1) \<le> n div 2"
      by auto
    have b: "bitlen n = 1 + bitlen (n div 2)"
      using 1(2) by (simp add: bitlen.simps [of n])
    have "nat (bitlen n - 1) = Suc (nat (bitlen (n div 2) - 1))"
      using ih(1) b by simp
    then have "(2::int) ^ nat (bitlen n - 1) = 2 * 2 ^ nat (bitlen (n div 2) - 1)"
      by simp
    also have "\<dots> \<le> 2 * (n div 2)"
      using ih(2) by simp
    also have "\<dots> \<le> n"
      by simp
    finally show ?thesis
      using b ih(1) by simp
  qed
qed

lemma pow2_nonneg: "0 \<le> k \<Longrightarrow> pow2 k = of_int (2 ^ nat k)"
  by (simp add: pow2_def)

lemma roundHalfEven_of_int: "roundHalfEven (of_int z) = z"
  by (simp add: roundHalfEven_def)

lemma ilog2_of_int:
  assumes "0 < a"
  shows "ilog2 (of_int a) \<le> bitlen a - 1"
    and "ilog2 (of_int a) = bitlen a - 1 \<Longrightarrow> pow2 (bitlen a - 1) \<le> of_int a"
  using assms by (auto simp: ilog2_def bitlen_1 Let_def split: if_splits)

lemma fpRound_pos_int:
  assumes a: "0 < a" and le: "a \<le> 2 ^ 53"
  shows "fpRound (of_int a) = of_int a"
proof -
  let ?e = "ilog2 (of_int a)"
  from bitlen_lower [OF a] have bl: "1 \<le> bitlen a" "2 ^ nat (bitlen a - 1) \<le> a"
    by auto
  have "(2::int) ^ nat (bitlen a - 1) \<le> 2 ^ 53"
    using bl(2) le by (rule order_trans)
  then have "nat (bitlen a - 1) \<le> 53"
    by (rule power_le_imp_le_exp [of "2::int", rotated]) simp
  then have b54: "bitlen a - 1 \<le> 53"
    by simp
  have e53: "?e \<le> 53"
    using ilog2_of_int(1) [OF a] b54 by simp
  have int: "\<exists>z. of_int a / pow2 (?e - 52) = of_int z"
  proof (cases "?e \<le> 52")
    case True
    then have "pow2 (?e - 52) = 1 / 2 ^ nat (52 - ?e)"
      by (auto simp: pow2_def)
    then have "of_int a / pow2 (?e - 52) = of_int (a * 2 ^ nat (52 - ?e))"
      by simp
    then show ?thesis ..
  next
    case False
    with e53 have e: "?e = 53" by simp
    with ilog2_of_int(1) [OF a] b54 have eq: "?e = bitlen a - 1" by simp
    from ilog2_of_int(2) [OF a eq] e eq have "pow2 53 \<le> of_int a"
      by simp
    then have "(2::rat) ^ 53 \<le> of_int a"
      by (simp add: pow2_def)
    then have "(of_int (2 ^ 53) :: rat) \<le> of_int a"
      by simp
    then have "(2::int) ^ 53 \<le> a"
      by (simp only: of_int_le_iff)
    with le have a53: "a = 2 ^ 53" by simp
    have "pow2 (?e - 52) = 2"
      using e by (simp add: pow2_def)
    then have "of_int a / pow2 (?e - 52) = of_int (2 ^ 52)"
      using a53 by simp
    then show ?thesis ..
  qed
  then obtain z where z: "of_int a / pow2 (?e - 52) = (of_int z :: rat)" ..
  have pos: "pow2 (?e - 52) \<noteq> 0"
    by (simp add: pow2_def)
  have "fpRound (of_int a) = of_int (roundHalfEven (of_int a / pow2 (?e - 52))) * pow2 (?e - 52)"
    using a by (simp add: fpRound_def Let_def)
  also have "\<dots> = of_int a / pow2 (?e - 52) * pow2 (?e - 52)"
    by (simp only: z roundHalfEven_of_int)
  also have "\<dots> = of_int a"
    using pos by simp
  finally show ?thesis .
qed

lemma fpRound_minus: "fpRound (- x) = - fpRound x"
  by (simp add: fpRound_def Let_def)

lemma fpRound_of_int: "\<bar>a\<bar> \<le> 2 ^ 53 \<Longrightarrow> fpRound (of_int a) = of_int a"
proof -
  assume le: "\<bar>a\<bar> \<le> 2 ^ 53"
  consider "a = 0" | "0 < a" | "a < 0" by linarith
  then show ?thesis
  proof cases
    case 1 then show ?thesis by (simp add: fpRound_def)
  next
    case 2 with le show ?thesis by (simp add: fpRound_pos_int)
  next
    case 3
    with le have "fpRound (of_int (- a)) = of_int (- a)"
      by (intro fpRound_pos_int) auto
    then show ?thesis
      using fpRound_minus [of "of_int a"] by simp
  qed
qed

lemma roundInt_small: "\<bar>n\<bar> \<le> 2 ^ 53 \<Longrightarrow> roundInt n = n"
  by (simp add: roundInt_def fpRound_of_int)

lemma digitChar_props:
  "0 \<le> d \<Longrightarrow> d < 10 \<Longrightarrow> isDigit (digitChar d) \<and> digitVal (digitChar d) = d"
proof -
  assume "0 \<le> d" "d < 10"
  then obtain k where k: "d = int k" "k < 10"
    by (metis nat_less_iff zero_le_imp_eq_int numeral_Bit0 of_nat_numeral nat_int
        zless_nat_eq_int_zless nat_numeral)
  have "digitChar d = char_of (48 + k)"
    unfolding digitChar_def k(1) by (metis of_nat_add of_nat_numeral char_of_nat)
  moreover have "(of_char (char_of (48 + k)) :: int) = int (of_char (char_of (48 + k)))"
    by (simp only: of_nat_of_char)
  ultimately show ?thesis
    using k by (simp add: isDigit_def digitVal_def)
qed

lemma isDigit_plain:
  "isDigit c \<Longrightarrow> \<not> isWhiteSpace c \<and> c \<noteq> CHR ''-'' \<and> c \<noteq> CHR ''+''"
  by (auto simp: isDigit_def isWhiteSpace_def)

lemma showDigits_digits:
  "0 \<le> n \<Longrightarrow>
     showDigits n \<noteq> [] \<and> list_all isDigit (showDigits n) \<and>
     foldl (\<lambda>a c. 10 * a + digitVal c) 0 (showDigits n) = n"
proof (induction n rule: showDigits.induct)
  case (1 n)
  show ?case
  proof (cases "n < 10")
    case True
    with 1(2) show ?thesis
      by (simp add: showDigits.simps [of n] digitChar_props)
  next
    case False
    have m: "0 \<le> n mod 10" "n mod 10 < 10" by simp_all
    from 1 False have "0 \<le> n div 10" by simp
    with 1 False m show ?thesis
      by (simp add: showDigits.simps [of n] digitChar_props)
  qed
qed

lemma foldl_zeros:
  "foldl (\<lambda>a c. 10 * a + digitVal c) a (replicate t (CHR ''0'')) = a * 10 ^ t"
  by (induction t arbitrary: a) (simp_all add: digitVal_def)

lemma isDigit_zero: "isDigit (CHR ''0'')"
  by (simp add: isDigit_def)

lemma parseDigits_padded:
  "0 \<le> c \<Longrightarrow>
     parseDigits (showDigits c @ replicate t (CHR ''0'')) = Some (roundInt (c * 10 ^ t))"
proof -
  assume c: "0 \<le> c"
  let ?s = "showDigits c @ replicate t (CHR ''0'')"
  from showDigits_digits [OF c] have "list_all isDigit ?s"
    by (auto simp: list_all_iff isDigit_zero)
  then have tw: "takeWhile isDigit ?s = ?s"
    by (simp add: list_all_iff isDigit_zero)
  show ?thesis
    unfolding parseDigits_def Let_def tw using showDigits_digits [OF c]
    by (simp add: foldl_zeros)
qed

lemma shortest_sound:
  "0 \<le> n \<Longrightarrow> roundInt n = n \<Longrightarrow> shortest fuel t n = (c, t') \<Longrightarrow>
     0 \<le> c \<and> roundInt (c * 10 ^ nat t') = n"
proof (induction fuel arbitrary: t)
  case 0
  then show ?case by simp
next
  case (Suc fuel)
  have lo: "0 \<le> n div 10 ^ nat t"
    using Suc.prems(1) by (simp add: pos_imp_zdiv_nonneg_iff)
  from Suc.prems(3) lo Suc.prems(1,2) Suc.IH [OF Suc.prems(1,2), of "t - 1"]
  show ?case
    by (auto simp: Let_def split: if_splits)
qed

lemma parseInt_numberToString:
  assumes n: "0 \<le> n" "n < 10 ^ 21" "roundInt n = n"
  shows "parseInt (numberToString n) = Some n \<and> parseInt (numberToString (- n)) = Some (- n)"
proof -
  obtain c t where s: "shortest 17 (int (length (showDigits n)) - 1) n = (c, t)"
    by (cases "shortest 17 (int (length (showDigits n)) - 1) n")
  from shortest_sound [OF n(1) n(3) s] have c: "0 \<le> c" "roundInt (c * 10 ^ nat t) = n"
    by auto
  let ?s = "showDigits c @ replicate (nat t) (CHR ''0'')"
  from showDigits_digits [OF c(1)] obtain d r where dr: "showDigits c = d # r" "isDigit d"
    by (cases "showDigits c") auto
  have pd: "parseDigits ?s = Some n"
    using parseDigits_padded [OF c(1), of "nat t"] c(2) by simp
  have pos: "parseInt ?s = Some n"
    using pd dr isDigit_plain [OF dr(2)] by (simp add: parseInt_def)
  have ws: "\<not> isWhiteSpace CHR ''-''"
    by (simp add: isWhiteSpace_def)
  have neg: "parseInt (CHR ''-'' # ?s) = Some (- n)"
    using pd ws by (simp add: parseInt_def)
  show ?thesis
  proof (cases "n = 0")
    case True
    with pos s n show ?thesis by (simp add: numberToString_def)
  next
    case False
    with pos neg s n show ?thesis by (simp add: numberToString_def)
  qed
qed

lemma parseInt_toString_JNum:
  "\<bar>n\<bar> \<le> 2 ^ 53 \<Longrightarrow> parseInt (toString (JNum n)) = Some n"
proof -
  assume le: "\<bar>n\<bar> \<le> 2 ^ 53"
  then have r: "roundInt n = n" "roundInt \<bar>n\<bar> = \<bar>n\<bar>"
    by (simp_all add: roundInt_small)
  from le have lt: "\<bar>n\<bar> < 10 ^ 21" by simp
  from parseInt_numberToString [OF _ lt r(2)] r(1) show ?thesis
    by (cases "n < 0") (simp_all add: abs_if split: if_splits)
qed

lemma findRecycled_None: "(findRecycled t bs = None) = (t \<notin> type ` set bs)"
  by (induction bs) auto

lemma findRecycled_Some:
  "findRecycled t bs = Some i \<Longrightarrow>
     i < length bs \<and> type (bs ! i) = t \<and> t \<notin> type ` set (take i bs)"
proof (induction bs arbitrary: i)
  case Nil
  then show ?case by simp
next
  case (Cons b bs)
  show ?case
  proof (cases "type b = t")
    case True
    with Cons.prems show ?thesis by simp
  next
    case False
    with Cons.prems obtain j where j: "findRecycled t bs = Some j" "i = Suc j"
      by auto
    from Cons.IH [OF j(1)] False j(2) show ?thesis by auto
  qed
qed


lemma getRecycledBlock_Some:
  "getRecycledBlock t f = (Some b, f') \<Longrightarrow> type b = t \<and> b \<in> set (recycledBlocks f)"
  by (auto simp: getRecycledBlock_def split: option.splits dest!: findRecycled_Some)

lemma instantiate_props:
  "instantiate s n = (b, n') \<Longrightarrow>
     type b = stateType s \<and> bid b = n \<and> isEnabled b = (stateEnabled s \<noteq> Some False) \<and> n < n'"
  by (induction s n arbitrary: b n' rule: instantiate.induct) (auto split: prod.splits)


lemma createFlyoutBlock_type:
  "createFlyoutBlock c f = Inr (b, f') \<Longrightarrow>
     type b = (case blockxml c of Some xml \<Rightarrow> stateType (blockOf xml)
               | None \<Rightarrow> stateType (blockState c))"
  by (auto simp: createFlyoutBlock_def domToBlock_def appendBlock_def
      split: option.splits prod.splits if_splits sum.splits
      dest!: getRecycledBlock_Some instantiate_props)

text \<open>\<^verbatim>\<open>createFlyoutBlock_\<close> returns on an entry whose state is well-formed.\<close>

lemma wellFormed_enabled: "wellFormed (State t en nx) = wellFormed (State t en' nx)"
  by (cases nx) simp_all

lemma createFlyoutBlock_returns:
  assumes "wellFormed (blockStateOf c)"
  shows "\<exists>b f'. createFlyoutBlock c f = Inr (b, f')"
proof (cases "blockxml c")
  case None
  with assms have "wellFormed (blockState c)"
    by (simp add: blockStateOf_def)
  then have "wellFormed (State (stateType (blockState c)) en (stateNext (blockState c)))" for en
    using wellFormed_enabled [of "stateType (blockState c)" en "stateNext (blockState c)"
        "stateEnabled (blockState c)"]
    by simp
  with None show ?thesis
    by (auto simp: createFlyoutBlock_def appendBlock_def
        split: option.splits prod.splits sum.splits)
next
  case (Some xml)
  with assms show ?thesis
    by (auto simp: createFlyoutBlock_def domToBlock_def appendBlock_def blockStateOf_def
        split: option.splits prod.splits sum.splits)
qed

lemma wellFormed_blockEntry: "Blocks t \<noteq> None \<Longrightarrow> wellFormed (blockStateOf (blockEntry t))"
  by (simp add: blockEntry_def blockStateOf_def)

lemma Blocks_math: "Blocks ''math_number'' \<noteq> None" "Blocks ''math_arithmetic'' \<noteq> None"
  by (simp_all add: Blocks_def)

lemma createFlyoutItem_block:
  "toUpperCase (kind c) = ''BLOCK'' \<Longrightarrow>
     createFlyoutItem d c (cs, gs, f) =
       (case createFlyoutBlock c f of
          Inl e \<Rightarrow> Inl e
        | Inr (block, f') \<Rightarrow> Inr (cs @ [BlockItem block], addBlockGap c gs d, f'))"
  by (simp add: createFlyoutItem_def)

lemma createFlyoutItem_sep:
  "toUpperCase (kind c) = ''SEP'' \<Longrightarrow>
     createFlyoutItem d c (cs, gs, f) =
       (case addSeparatorGap c gs d of Inl e \<Rightarrow> Inl e | Inr gs' \<Rightarrow> Inr (cs, gs', f))"
  by (simp add: createFlyoutItem_def)

section \<open>The recycle pool\<close>

text \<open>
  C7. \<^verbatim>\<open>getRecycledBlock_\<close> answers \<^verbatim>\<open>undefined\<close> exactly when no pool entry has the requested
  type, and then leaves the flyout alone. Otherwise it answers a block of the requested type,
  the first such entry in pool order (no entry before it has the type), and the pool loses
  that entry only: the entries before and after it stay, in their order.
\<close>

theorem getRecycledBlock_first_match:
  "(fst (getRecycledBlock blockType f) = None) = (blockType \<notin> type ` set (recycledBlocks f)) \<and>
   (case getRecycledBlock blockType f of
      (None, f') \<Rightarrow> f' = f
    | (Some b, f') \<Rightarrow>
        type b = blockType \<and>
        (\<exists>pre post. recycledBlocks f = pre @ b # post \<and> blockType \<notin> type ` set pre \<and>
           f' = f\<lparr>recycledBlocks := pre @ post\<rparr>))"
proof (cases "findRecycled blockType (recycledBlocks f)")
  case None
  then show ?thesis
    by (simp add: getRecycledBlock_def findRecycled_None [symmetric])
next
  case (Some i)
  let ?bs = "recycledBlocks f"
  from findRecycled_Some [OF Some]
  have i: "i < length ?bs" and t: "type (?bs ! i) = blockType"
    and pre: "blockType \<notin> type ` set (take i ?bs)"
    by simp_all
  have split: "?bs = take i ?bs @ (?bs ! i) # drop (Suc i) ?bs"
    using i by (simp add: id_take_nth_drop)
  have "blockType \<in> type ` set ?bs"
    using i t by (metis imageI nth_mem)
  then show ?thesis
    using Some t pre split by (auto simp: getRecycledBlock_def)
qed

theorem getRecycledBlock_first_match_witness:
  "fst (getRecycledBlock ''text'' poolFlyout) = Some (Block 2 ''text'' True None) \<and>
   recycledBlocks (snd (getRecycledBlock ''text'' poolFlyout)) =
     [Block 1 ''math_number'' True None, Block 3 ''text'' False None] \<and>
   fst (getRecycledBlock ''logic_null'' poolFlyout) = None"
  using getRecycledBlock_first_match [of "''text''" poolFlyout]
    getRecycledBlock_first_match [of "''logic_null''" poolFlyout]
  by (simp add: getRecycledBlock_def poolFlyout_def newFlyout_def)

section \<open>The concrete scenario\<close>

lemma scenario_run:
  assumes "\<not> horizontalLayout f" and "GAP_Y f = 24"
  shows "\<exists>b1 b2 f'.
           createFlyoutInfo (3 + k)
             [blockEntry ''math_number'', sepEntry (Some (JNum 40)),
              blockEntry ''math_arithmetic''] f
             = Some (Inr ([BlockItem b1, BlockItem b2], [40, 24], f'))
           \<and> type b1 = ''math_number'' \<and> type b2 = ''math_arithmetic''"
proof -
  let ?f0 = "f\<lparr>permanentlyDisabled := []\<rparr>"
  obtain b1 f1 where c1: "createFlyoutBlock (blockEntry ''math_number'') ?f0 = Inr (b1, f1)"
    using createFlyoutBlock_returns [OF wellFormed_blockEntry [OF Blocks_math(1)]] by blast
  obtain b2 f2 where c2: "createFlyoutBlock (blockEntry ''math_arithmetic'') f1 = Inr (b2, f2)"
    using createFlyoutBlock_returns [OF wellFormed_blockEntry [OF Blocks_math(2)]] by blast
  have t1: "type b1 = ''math_number''"
    using createFlyoutBlock_type [OF c1] by (simp add: blockEntry_def)
  have t2: "type b2 = ''math_arithmetic''"
    using createFlyoutBlock_type [OF c2] by (simp add: blockEntry_def)
  have kb: "\<And>t. toUpperCase (kind (blockEntry t)) = ''BLOCK''"
    by (simp add: blockEntry_def toUpperCase_BLOCK)
  have ks: "\<And>g. toUpperCase (kind (sepEntry g)) = ''SEP''"
    by (simp add: sepEntry_def toUpperCase_SEP)
  have g1: "\<And>t gs d. addBlockGap (blockEntry t) gs d = gs @ [d]"
    by (simp add: addBlockGap_def blockEntry_def)
  have g2: "\<And>d. addSeparatorGap (sepEntry (Some (JNum 40))) [24] d = Inr [40]"
    by (simp add: addSeparatorGap_def sepEntry_def parseInt_40 del: toString.simps)
  have cu: "\<And>t. custom (blockEntry t) = None" "\<And>g. custom (sepEntry g) = None"
    by (simp_all add: blockEntry_def sepEntry_def)
  have fuel: "3 + k = Suc (Suc (Suc k))"
    by simp
  have "createFlyoutInfo (3 + k)
          [blockEntry ''math_number'', sepEntry (Some (JNum 40)),
           blockEntry ''math_arithmetic''] f
        = Some (Inr ([BlockItem b1, BlockItem b2], [40, 24], f2))"
    unfolding createFlyoutInfo_def fuel
    using assms c1 c2
    by (simp add: cu createFlyoutItem_block createFlyoutItem_sep kb ks g1 g2)
  with t1 t2 show ?thesis
    by blast
qed

text \<open>
  C5, as amended. On a vertical flyout whose default gap is 24, the descriptor
  \<^verbatim>\<open>[{kind:"BLOCK", type:"math_number"}, {kind:"SEP", gap:40}, {kind:"BLOCK",
  type:"math_arithmetic"}]\<close> is parsed (by any run of at least three iterations) into exactly
  two block items, \<^verbatim>\<open>math_number\<close> then \<^verbatim>\<open>math_arithmetic\<close>, and the gap sequence
  \<^verbatim>\<open>[40, 24]\<close>: the separator overwrote the first block's gap, which is the gap between the
  two blocks, and the second block keeps the default gap after it.
\<close>

theorem scenario_gaps:
  "\<not> horizontalLayout f \<and> GAP_Y f = 24 \<longrightarrow>
     (\<exists>b1 b2 f'.
        createFlyoutInfo (3 + k)
          [blockEntry ''math_number'', sepEntry (Some (JNum 40)),
           blockEntry ''math_arithmetic''] f
          = Some (Inr ([BlockItem b1, BlockItem b2], [40, 24], f'))
        \<and> type b1 = ''math_number'' \<and> type b2 = ''math_arithmetic'')"
  using scenario_run by blast

theorem scenario_gaps_witness:
  "\<not> horizontalLayout (newFlyout (plainTarget (\<lambda>name. None))) \<and>
   GAP_Y (newFlyout (plainTarget (\<lambda>name. None))) = 24 \<and>
   (\<exists>b1 b2 f'.
      createFlyoutInfo 3
        [blockEntry ''math_number'', sepEntry (Some (JNum 40)),
         blockEntry ''math_arithmetic''] (newFlyout (plainTarget (\<lambda>name. None)))
        = Some (Inr ([BlockItem b1, BlockItem b2], [40, 24], f'))
      \<and> type b1 = ''math_number'' \<and> type b2 = ''math_arithmetic'')"
  using scenario_gaps [of "newFlyout (plainTarget (\<lambda>name. None))" 0]
  by (simp add: newFlyout_def MARGIN_def CORNER_RADIUS_def)

lemma scenario_value:
  "createFlyoutInfo (3 + k)
     [blockEntry ''math_number'', sepEntry (Some (JNum 40)), blockEntry ''math_arithmetic'']
     (newFlyout ws)
   = Some (Inr ([BlockItem (Block 0 ''math_number'' True None),
                 BlockItem (Block 1 ''math_arithmetic'' True None)], [40, 24],
                (newFlyout ws)
                  \<lparr>topBlocks := [Block 0 ''math_number'' True None,
                                 Block 1 ''math_arithmetic'' True None],
                     nextId := 2\<rparr>))"
proof -
  let ?f1 = "(newFlyout ws)\<lparr>topBlocks := [Block 0 ''math_number'' True None], nextId := 1\<rparr>"
  have b: "createFlyoutItem d (blockEntry t) (cs, gs, f)
            = (case createFlyoutBlock (blockEntry t) f of
                 Inl e \<Rightarrow> Inl e
               | Inr (block, f') \<Rightarrow>
                   Inr (cs @ [BlockItem block], addBlockGap (blockEntry t) gs d, f'))"
    for d t cs gs f
    by (rule createFlyoutItem_block) (simp add: blockEntry_def toUpperCase_BLOCK)
  have s: "createFlyoutItem d (sepEntry (Some (JNum 40))) (cs, [24], f) = Inr (cs, [40], f)"
    for d cs f
    by (simp add: createFlyoutItem_sep addSeparatorGap_def sepEntry_def toUpperCase_SEP
        parseInt_40 del: toString.simps)
  have fuel: "3 + k = Suc (Suc (Suc k))"
    by simp
  have cu: "custom (sepEntry (Some (JNum 40))) = None" "\<And>t. custom (blockEntry t) = None"
    by (simp_all add: sepEntry_def blockEntry_def)
  have cr1: "createFlyoutBlock (blockEntry ''math_number'') (newFlyout ws)
            = Inr (Block 0 ''math_number'' True None, ?f1)"
    by (simp add: createFlyoutBlock_def getRecycledBlock_def appendBlock_def blockEntry_def
        newFlyout_def Blocks_def)
  have cr2: "createFlyoutBlock (blockEntry ''math_arithmetic'') ?f1
            = Inr (Block 1 ''math_arithmetic'' True None,
               (newFlyout ws)
                  \<lparr>topBlocks := [Block 0 ''math_number'' True None,
                                 Block 1 ''math_arithmetic'' True None],
                     nextId := 2\<rparr>)"
    by (simp add: createFlyoutBlock_def getRecycledBlock_def appendBlock_def blockEntry_def
        newFlyout_def Blocks_def)
  have g: "addBlockGap (blockEntry t) gs d = gs @ [d]" for t gs d
    by (simp add: addBlockGap_def blockEntry_def)
  have pd: "(newFlyout ws)\<lparr>permanentlyDisabled := []\<rparr> = newFlyout ws"
    by (simp add: newFlyout_def)
  have tw: "GAP_Y (newFlyout ws) = 24" "\<not> horizontalLayout (newFlyout ws)"
    by (simp_all add: newFlyout_def MARGIN_def CORNER_RADIUS_def)
  show ?thesis
    unfolding createFlyoutInfo_def fuel
    using cr1 cr2 by (simp add: pd tw cu s b g)
qed

text \<open>
  The scenario on a newly constructed flyout: the gap sequence is \<^verbatim>\<open>[40, 24]\<close>, not
  \<^verbatim>\<open>[24, 40]\<close>.
\<close>

theorem scenario_gaps_counterexample:
  "createFlyoutInfo 3
     [blockEntry ''math_number'', sepEntry (Some (JNum 40)), blockEntry ''math_arithmetic'']
     (newFlyout (plainTarget (\<lambda>name. None)))
   = Some (Inr ([BlockItem (Block 0 ''math_number'' True None),
                 BlockItem (Block 1 ''math_arithmetic'' True None)], [40, 24],
                (newFlyout (plainTarget (\<lambda>name. None)))
                  \<lparr>topBlocks := [Block 0 ''math_number'' True None,
                                 Block 1 ''math_arithmetic'' True None],
                     nextId := 2\<rparr>)) \<and>
   [40, 24] \<noteq> [24, 40 :: int]"
  using scenario_value [of 0 "plainTarget (\<lambda>name. None)"] by simp

section \<open>Gaps of block entries\<close>

lemma parseInt_0: "parseInt (toString (JNum 0)) = Some 0"
  by code_simp

lemma parseInt_50: "parseInt ''50'' = Some 50"
  by code_simp

lemma parseInt_str0: "parseInt (toString (JStr ''0'')) = Some 0"
  by code_simp

lemma parseInt_empty: "parseInt [] = None"
  by (simp add: parseInt_def)

lemma parseInt_false: "parseInt ''false'' = None"
  by code_simp

lemma falsy_zero:
  "\<not> truthy (Some v) \<Longrightarrow> parseInt (toString v) = Some 0 \<Longrightarrow> v = JNum 0"
  by (cases v) (auto simp: parseInt_empty parseInt_false)

lemma addBlockGap_last_nonzero:
  "defaultGap \<noteq> 0 \<Longrightarrow> last (addBlockGap blockInfo gaps defaultGap) \<noteq> 0"
  by (auto simp: addBlockGap_def Let_def split: option.splits)

text \<open>
  C10, as amended. Let a block entry have a gap that is present and parses to the integer 0.
  If the gap is truthy (a string such as \<^verbatim>\<open>"0"\<close>), \<^verbatim>\<open>addBlockGap_\<close> appends the axis default
  gap. If it is falsy it is the number 0, and \<^verbatim>\<open>addBlockGap_\<close> appends exactly what it appends
  when the gap is missing: the gap attribute of the entry's \<^verbatim>\<open>blockxml\<close> when there is one and
  it parses to a non-zero integer, the default gap otherwise. With no \<^verbatim>\<open>blockxml\<close> the default
  gap is appended in both cases. A non-zero default gap given, 0 is never appended.
\<close>

theorem addBlockGap_zero:
  "gap blockInfo = Some v \<and> parseInt (toString v) = Some 0 \<longrightarrow>
     (truthy (Some v) \<longrightarrow> addBlockGap blockInfo gaps defaultGap = gaps @ [defaultGap]) \<and>
     (\<not> truthy (Some v) \<longrightarrow>
        v = JNum 0 \<and>
        addBlockGap blockInfo gaps defaultGap
          = addBlockGap (blockInfo\<lparr>gap := None\<rparr>) gaps defaultGap \<and>
        addBlockGap blockInfo gaps defaultGap
          = gaps @
            [case blockxml blockInfo of
               None \<Rightarrow> defaultGap
             | Some xml \<Rightarrow>
                 (case parseInt (case gapAttr xml of None \<Rightarrow> ''null'' | Some a \<Rightarrow> a) of
                    None \<Rightarrow> defaultGap
                  | Some g \<Rightarrow> if g = 0 then defaultGap else g)]) \<and>
     (blockxml blockInfo = None \<longrightarrow> addBlockGap blockInfo gaps defaultGap = gaps @ [defaultGap]) \<and>
     (defaultGap \<noteq> 0 \<longrightarrow> last (addBlockGap blockInfo gaps defaultGap) \<noteq> 0)"
proof (intro impI, elim conjE)
  assume g: "gap blockInfo = Some v" and p: "parseInt (toString v) = Some 0"
  have a: "truthy (Some v) \<longrightarrow> addBlockGap blockInfo gaps defaultGap = gaps @ [defaultGap]"
    using g p by (simp add: addBlockGap_def del: toString.simps)
  have b: "\<not> truthy (Some v) \<longrightarrow>
        v = JNum 0 \<and>
        addBlockGap blockInfo gaps defaultGap
          = addBlockGap (blockInfo\<lparr>gap := None\<rparr>) gaps defaultGap \<and>
        addBlockGap blockInfo gaps defaultGap
          = gaps @
            [case blockxml blockInfo of
               None \<Rightarrow> defaultGap
             | Some xml \<Rightarrow>
                 (case parseInt (case gapAttr xml of None \<Rightarrow> ''null'' | Some a \<Rightarrow> a) of
                    None \<Rightarrow> defaultGap
                  | Some g \<Rightarrow> if g = 0 then defaultGap else g)]"
    using g p falsy_zero [of v]
    by (simp add: addBlockGap_def split: option.splits del: toString.simps)
  have c: "blockxml blockInfo = None \<longrightarrow>
        addBlockGap blockInfo gaps defaultGap = gaps @ [defaultGap]"
    using g p by (simp add: addBlockGap_def del: toString.simps)
  from a b c addBlockGap_last_nonzero [of defaultGap blockInfo gaps]
  show "(truthy (Some v) \<longrightarrow> addBlockGap blockInfo gaps defaultGap = gaps @ [defaultGap]) \<and>
     (\<not> truthy (Some v) \<longrightarrow>
        v = JNum 0 \<and>
        addBlockGap blockInfo gaps defaultGap
          = addBlockGap (blockInfo\<lparr>gap := None\<rparr>) gaps defaultGap \<and>
        addBlockGap blockInfo gaps defaultGap
          = gaps @
            [case blockxml blockInfo of
               None \<Rightarrow> defaultGap
             | Some xml \<Rightarrow>
                 (case parseInt (case gapAttr xml of None \<Rightarrow> ''null'' | Some a \<Rightarrow> a) of
                    None \<Rightarrow> defaultGap
                  | Some g \<Rightarrow> if g = 0 then defaultGap else g)]) \<and>
     (blockxml blockInfo = None \<longrightarrow> addBlockGap blockInfo gaps defaultGap = gaps @ [defaultGap]) \<and>
     (defaultGap \<noteq> 0 \<longrightarrow> last (addBlockGap blockInfo gaps defaultGap) \<noteq> 0)"
    by blast
qed

theorem addBlockGap_zero_witness:
  "gap (blockEntry ''math_number''\<lparr>gap := Some (JStr ''0'')\<rparr>) = Some (JStr ''0'') \<and>
   parseInt (toString (JStr ''0'')) = Some 0 \<and>
   addBlockGap (blockEntry ''math_number''\<lparr>gap := Some (JStr ''0'')\<rparr>) [8] 24 = [8, 24] \<and>
   gap (blockEntry ''math_number''\<lparr>gap := Some (JNum 0)\<rparr>) = Some (JNum 0) \<and>
   parseInt (toString (JNum 0)) = Some 0 \<and>
   addBlockGap (blockEntry ''math_number''\<lparr>gap := Some (JNum 0)\<rparr>) [8] 24 = [8, 24]"
  using addBlockGap_zero
      [of "blockEntry ''math_number''\<lparr>gap := Some (JStr ''0'')\<rparr>" "JStr ''0''" "[8]" 24]
    addBlockGap_zero
      [of "blockEntry ''math_number''\<lparr>gap := Some (JNum 0)\<rparr>" "JNum 0" "[8]" 24]
    parseInt_0 parseInt_str0
  by (simp add: blockEntry_def addBlockGap_def del: toString.simps)

lemma zeroGapXml_run: "addBlockGap zeroGapXmlEntry [] 24 = [50]"
  by (simp add: addBlockGap_def zeroGapXmlEntry_def parseInt_50)

text \<open>
  A block entry whose gap is the number 0 and whose \<^verbatim>\<open>blockxml\<close> has the gap attribute
  \<^verbatim>\<open>"50"\<close>: the gap is present and parses to 0, and 50 is appended, not the default 24.
\<close>

theorem addBlockGap_zero_counterexample:
  "gap zeroGapXmlEntry = Some (JNum 0) \<and> parseInt (toString (JNum 0)) = Some 0 \<and>
   addBlockGap zeroGapXmlEntry [] 24 = [50] \<and> addBlockGap zeroGapXmlEntry [] 24 \<noteq> [] @ [24]"
  by (simp add: zeroGapXml_run parseInt_0 del: toString.simps) (simp add: zeroGapXmlEntry_def)

section \<open>Gaps of separator entries\<close>

text \<open>
  A separator that has a gap value: a gap that parses to a number replaces the last gap
  entry when there is one, and nothing is appended; with no gap entry yet, or a gap that
  does not parse, one default gap is appended.
\<close>

lemma addSeparatorGap_defined:
  "gap sepInfo = Some v \<Longrightarrow>
     addSeparatorGap sepInfo gaps defaultGap =
       (case parseInt (toString v) of
          Some g \<Rightarrow> if gaps = [] then Inr [defaultGap] else Inr (butlast gaps @ [g])
        | None \<Rightarrow> Inr (gaps @ [defaultGap]))"
  by (cases gaps rule: rev_cases)
    (simp_all add: addSeparatorGap_def split: option.splits del: toString.simps)

lemma addSeparatorGap_number_gap:
  "\<bar>G\<bar> \<le> 2 ^ 53 \<Longrightarrow> gap sepInfo = Some (JNum G) \<Longrightarrow>
     addSeparatorGap sepInfo gaps defaultGap =
       (if gaps = [] then Inr [defaultGap] else Inr (butlast gaps @ [G]))"
  using addSeparatorGap_defined [of sepInfo "JNum G" gaps defaultGap]
  by (simp add: parseInt_toString_JNum del: toString.simps)

text \<open>
  Two separators with no item before them, \<^verbatim>\<open>[{kind: "SEP", gap: 40}, {kind: "SEP",
  gap: 50}]\<close>: the first appends the default gap, the second overwrites it.
\<close>

lemma two_separators_run:
  "createFlyoutInfo 2 [sepEntry (Some (JNum 40)), sepEntry (Some (JNum 50))] (newFlyout ws)
     = Some (Inr ([], [50], (newFlyout ws)\<lparr>permanentlyDisabled := []\<rparr>))"
proof -
  have s: "createFlyoutItem d (sepEntry (Some (JNum G))) (cs, gs, f)
             = (if gs = [] then Inr (cs, [d], f) else Inr (cs, butlast gs @ [G], f))"
    if "\<bar>G\<bar> \<le> 2 ^ 53" for d G cs gs f
    using addSeparatorGap_number_gap [OF that, of "sepEntry (Some (JNum G))" gs d]
    by (simp add: createFlyoutItem_sep sepEntry_def toUpperCase_SEP)
  have cu: "custom (sepEntry g) = None" for g
    by (simp add: sepEntry_def)
  show ?thesis
    by (simp add: createFlyoutInfo_def numeral_2_eq_2 cu s)
qed

text \<open>
  C4, at the failing input. A leading separator entry with no \<^verbatim>\<open>gap\<close> key,
  \<^verbatim>\<open>[{kind: "SEP"}]\<close>: \<^verbatim>\<open>addSeparatorGap_\<close> throws, and so does \<^verbatim>\<open>createFlyoutInfo_\<close>; no
  default gap is appended.
\<close>

theorem separator_without_gap_throws:
  "addSeparatorGap (sepEntry None) [] 24
     = Inl (TypeError ''Cannot read properties of undefined (reading toString)'') \<and>
   createFlyoutInfo 1 [sepEntry None] (newFlyout (plainTarget (\<lambda>name. None)))
     = Some (Inl (TypeError ''Cannot read properties of undefined (reading toString)''))"
  by (simp add: addSeparatorGap_def createFlyoutInfo_def createFlyoutItem_sep sepEntry_def
      toUpperCase_SEP)

section \<open>Dynamic categories\<close>

lemma createFlyoutItem_other:
  "toUpperCase (kind c) \<notin> {''BLOCK'', ''SEP'', ''LABEL'', ''BUTTON''} \<Longrightarrow>
     createFlyoutItem d c acc = Inr acc"
  by (cases acc) (simp add: createFlyoutItem_def)

lemma createFlyoutItem_label:
  "toUpperCase (kind c) = ''LABEL'' \<Longrightarrow> hasFlyoutButton f \<Longrightarrow>
     createFlyoutItem d c (cs, gs, f) =
       Inr (cs @ [ButtonItem (FlyoutButton c True)], gs @ [d], f)"
  by (simp add: createFlyoutItem_def createButton_def)

text \<open>
  C6, at the failing input. \<^verbatim>\<open>OUTER\<close> expands to the entry of \<^verbatim>\<open>INNER\<close> alone, and \<^verbatim>\<open>INNER\<close>
  to one block. Parsing \<^verbatim>\<open>[{kind: "CATEGORY", custom: "OUTER"}]\<close> returns no item and no
  gap: the entry of \<^verbatim>\<open>INNER\<close>, first of the expansion, goes to the \<^verbatim>\<open>switch\<close> unresolved
  and is dropped, and its block never appears.
\<close>

theorem nested_first_entry_not_resolved:
  "createFlyoutInfo (Suc k) [categoryEntry ''OUTER''] (newFlyout (plainTarget nestedFirst))
     = Some (Inr ([], [], newFlyout (plainTarget nestedFirst)))"
proof -
  have "createFlyoutItem d (categoryEntry ''INNER'') acc = Inr acc" for d acc
    by (rule createFlyoutItem_other) (simp add: categoryEntry_def toUpperCase_CATEGORY)
  then show ?thesis
    by (simp add: createFlyoutInfo_def getDynamicCategoryContents_def categoryEntry_def
        newFlyout_def plainTarget_def nestedFirst_def)
qed

text \<open>
  The same nesting one position later is resolved: with \<^verbatim>\<open>OUTER\<close> expanding to a label and
  then the entry of \<^verbatim>\<open>INNER\<close>, the block of \<^verbatim>\<open>INNER\<close> is among the items.
\<close>

lemma nested_later_entry_resolved:
  "createFlyoutInfo (3 + k) [categoryEntry ''OUTER''] (newFlyout (plainTarget nestedLater))
     = Some (Inr ([ButtonItem (FlyoutButton labelEntry True),
                   BlockItem (Block 0 ''math_number'' True None)], [24, 24],
                  (newFlyout (plainTarget nestedLater))
                    \<lparr>topBlocks := [Block 0 ''math_number'' True None], nextId := 1\<rparr>))"
proof -
  have l: "createFlyoutItem d labelEntry (cs, gs, newFlyout ws)
            = Inr (cs @ [ButtonItem (FlyoutButton labelEntry True)], gs @ [d], newFlyout ws)"
    for d cs gs ws
    by (rule createFlyoutItem_label) (simp_all add: labelEntry_def toUpperCase_LABEL newFlyout_def)
  have b: "createFlyoutItem d (blockEntry t) (cs, gs, f)
            = (case createFlyoutBlock (blockEntry t) f of
                 Inl e \<Rightarrow> Inl e
               | Inr (block, f') \<Rightarrow>
                   Inr (cs @ [BlockItem block], addBlockGap (blockEntry t) gs d, f'))"
    for d t cs gs f
    by (rule createFlyoutItem_block) (simp add: blockEntry_def toUpperCase_BLOCK)
  have fuel: "3 + k = Suc (Suc (Suc k))"
    by simp
  have cu: "custom labelEntry = None" "custom (categoryEntry ''OUTER'') = Some ''OUTER''"
    "custom (categoryEntry ''INNER'') = Some ''INNER''"
    "custom (blockEntry ''math_number'') = None"
    by (simp_all add: labelEntry_def categoryEntry_def blockEntry_def)
  have cr: "createFlyoutBlock (blockEntry ''math_number'')
              (newFlyout (plainTarget nestedLater))
            = Inr (Block 0 ''math_number'' True None,
               (newFlyout (plainTarget nestedLater))
                 \<lparr>topBlocks := [Block 0 ''math_number'' True None], nextId := 1\<rparr>)"
    by (simp add: createFlyoutBlock_def getRecycledBlock_def appendBlock_def blockEntry_def
        newFlyout_def Blocks_def)
  have g: "addBlockGap (blockEntry t) gs d = gs @ [d]" for t gs d
    by (simp add: addBlockGap_def blockEntry_def)
  have pd: "(newFlyout ws)\<lparr>permanentlyDisabled := []\<rparr> = newFlyout ws" for ws
    by (simp add: newFlyout_def)
  have tw: "targetWorkspace (newFlyout ws) = ws" "GAP_Y (newFlyout ws) = 24"
    "\<not> horizontalLayout (newFlyout ws)" for ws
    by (simp_all add: newFlyout_def MARGIN_def CORNER_RADIUS_def)
  have cbk: "getToolboxCategoryCallback (plainTarget c) = c" for c
    by (simp add: plainTarget_def)
  show ?thesis
    unfolding createFlyoutInfo_def fuel
    by (simp add: pd tw cu l b cr g getDynamicCategoryContents_def cbk nestedLater_def)
qed

text \<open>
  C8. When the target workspace has no callback registered for a category name, resolving
  the name throws the \<^verbatim>\<open>TypeError\<close> of \<^verbatim>\<open>getDynamicCategoryContents_\<close>: the lookup itself
  does, \<^verbatim>\<open>show\<close> called with the name does, whatever the fuel, and the parsing loop does at
  the iteration that reaches an entry whose \<^verbatim>\<open>custom\<close> key is the name, whatever entries
  follow and whatever was parsed before. The throw is the result of the call: nothing
  runs after it.
\<close>

theorem missing_callback_throws:
  "getToolboxCategoryCallback (targetWorkspace f) categoryName = None \<longrightarrow>
     getDynamicCategoryContents f categoryName
       = Inl (TypeError ''Couldn't find a callback function when opening a toolbox category.'') \<and>
     showFlyout fuel (Inl categoryName) f
       = Some (Inl (TypeError
           ''Couldn't find a callback function when opening a toolbox category.'')) \<and>
     (custom contentInfo = Some categoryName \<longrightarrow>
        createFlyoutInfo (Suc fuel) (contentInfo # rest) f
          = Some (Inl (TypeError
              ''Couldn't find a callback function when opening a toolbox category.'')) \<and>
        createFlyoutInfoLoop (Suc fuel) defaultGap (contentInfo # rest) (contents, gaps, f)
          = Some (Inl (TypeError
              ''Couldn't find a callback function when opening a toolbox category.'')))"
  by (simp add: getDynamicCategoryContents_def showFlyout_def createFlyoutInfo_def
      clearOldBlocks_def hide_def)

theorem missing_callback_throws_witness:
  "getToolboxCategoryCallback (targetWorkspace (newFlyout (plainTarget nestedFirst)))
     ''VARIABLE'' = None \<and>
   showFlyout 0 (Inl ''VARIABLE'') (newFlyout (plainTarget nestedFirst))
     = Some (Inl (TypeError
         ''Couldn't find a callback function when opening a toolbox category.'')) \<and>
   custom (categoryEntry ''VARIABLE'') = Some ''VARIABLE'' \<and>
   createFlyoutInfo 1 [categoryEntry ''VARIABLE''] (newFlyout (plainTarget nestedFirst))
     = Some (Inl (TypeError
         ''Couldn't find a callback function when opening a toolbox category.''))"
  using missing_callback_throws
    [of "newFlyout (plainTarget nestedFirst)" "''VARIABLE''" 0 "categoryEntry ''VARIABLE''" "[]"]
  by (simp add: newFlyout_def plainTarget_def nestedFirst_def categoryEntry_def)

section \<open>Contents and gaps\<close>




















section \<open>The permanently disabled blocks\<close>


















section \<open>Notifications of block creation\<close>







section \<open>The position of the new block\<close>








end
